theory Spec2Isabelle
  imports Main "HOL-Library.Sublist" "HOL-Library.AList"
begin

section \<open>Values, exceptions and effects of \<open>lambda_function.py\<close>\<close>

text \<open>
  The module is a pipeline of four functions around external services (the quote
  provider, S3, Secrets Manager, MySQL). Every external answer is a field of the
  record \<open>env\<close>; every external call the code makes is an \<open>event\<close>, and each function
  returns its result together with the events it performed, in order. An exception is
  the \<open>Inl\<close> of a sum. Calls of \<open>logger.info\<close> are left out of the events; the
  evaluation of their arguments is not.
\<close>

datatype exn =
    KeyError string
  | NameError string
  | ValueError string
  | TypeError string
  | OverflowError string
  | MySQLError string
  | IOError string
  | OtherError string

text \<open>\<open>except (mysql.connector.Error, IOError)\<close>: the two classes the retry loop handles.\<close>

fun caught :: "exn \<Rightarrow> bool" where
  "caught (MySQLError m) = True"
| "caught (IOError m) = True"
| "caught e = False"

text \<open>
  A cell of a DataFrame: a \<open>pd.Timestamp\<close> (nanoseconds since the epoch), a string, a
  float (an opaque code of its value: the program never computes with one), an integer,
  or the missing value.
\<close>

datatype cell = Timestamp int | Str string | Float int | Integer int | NaN

text \<open>
  A DataFrame is its index and its columns, label by label in order; a column holds one
  cell per index entry. Column labels are distinct in every frame the program builds.
\<close>

record dataframe =
  index :: "cell list"
  cols :: "(string \<times> cell list) list"

definition columns :: "dataframe \<Rightarrow> string list" where
  "columns df = map fst (cols df)"

text \<open>A value bound to a placeholder of the insert statement.\<close>

datatype param = PyDatetime int | Value cell

record config =
  user :: "string option"
  password :: "string option"
  host :: "string option"
  database :: "string option"
  port :: "string option"
  raise_on_warnings :: bool

text \<open>
  An open MySQL connection, as the program sees it: what each of its operations raises,
  if anything. The \<open>n\<close>-th \<open>cursor.execute\<close> (from 0) has its own answer.
\<close>

record connection =
  cursor_raises :: "exn option"
  execute_raises :: "nat \<Rightarrow> string \<Rightarrow> param list \<Rightarrow> exn option"
  commit_raises :: "exn option"
  cursor_close_raises :: "exn option"
  close_raises :: "exn option"

record datetime =
  year :: nat
  month :: nat
  day :: nat
  hour :: nat
  minute :: nat
  second :: nat
  microsecond :: nat

record env =
  environ :: "string \<rightharpoonup> string"
  now :: datetime
  yf_download :: "string \<Rightarrow> exn + dataframe"
  csv_text :: "cell \<Rightarrow> string"
  put_object :: "string \<Rightarrow> string \<Rightarrow> string \<Rightarrow> exn option"
  secret_value :: "string \<Rightarrow> string \<Rightarrow> exn + (string \<rightharpoonup> string)"
  mysql_connect :: "config \<Rightarrow> int \<Rightarrow> exn + connection"

datatype event =
    Download string
  | PutObject string string string
  | GetSecretValue string string
  | Connect config
  | Sleep int
  | Cursor
  | Execute string "param list"
  | Commit
  | CursorClose
  | ConnectionClose

section \<open>\<open>get_secret\<close> and \<open>connect_to_mysql\<close>\<close>

text \<open>
  \<open>secret_value env region name\<close> stands for the calls that follow the two
  environment lookups (creating the client, \<open>client.get_secret_value\<close>,
  \<open>['SecretString']\<close>, \<open>json.loads\<close>): the parsed secret, or the exception one of
  them raises.
\<close>

definition get_secret :: "env \<Rightarrow> (exn + (string \<rightharpoonup> string)) \<times> event list" where
  "get_secret e =
     (case environ e ''SECRET_NAME'' of
        None \<Rightarrow> (Inl (KeyError ''SECRET_NAME''), [])
      | Some secret_name \<Rightarrow>
          (case environ e ''REGION_NAME'' of
             None \<Rightarrow> (Inl (KeyError ''REGION_NAME''), [])
           | Some region_name \<Rightarrow>
               (secret_value e region_name secret_name,
                [GetSecretValue region_name secret_name])))"

definition make_config :: "(string \<rightharpoonup> string) \<Rightarrow> config" where
  "make_config secret =
     \<lparr> user = secret ''username'', password = secret ''password'',
       host = secret ''host'', database = secret ''dbname'',
       port = secret ''port'', raise_on_warnings = True \<rparr>"

text \<open>
  The names a global lookup inside the module can find: its imports, \<open>logger\<close> and its
  six functions. (No builtin is called \<open>attemps\<close>.)
\<close>

definition module_globals :: "string list" where
  "module_globals =
     [''logging'', ''json'', ''pd'', ''boto3'', ''io'', ''mysql'', ''os'', ''time'', ''yf'',
      ''datetime'', ''timedelta'', ''Any'', ''Dict'', ''Optional'', ''Union'', ''logger'',
      ''insert_data'', ''get_secret'', ''connect_to_mysql'', ''save_in_bucket'',
      ''get_market_value'', ''lambda_handler'']"

text \<open>The local names of \<open>connect_to_mysql\<close>: its parameters and the names it assigns.\<close>

definition connect_to_mysql_locals :: "string list" where
  "connect_to_mysql_locals =
     [''attempts'', ''delay'', ''secret'', ''config'', ''attempt'', ''cnx'', ''err'']"

definition resolves :: "string \<Rightarrow> bool" where
  "resolves name = (name \<in> set (connect_to_mysql_locals @ module_globals))"

text \<open>
  The \<open>while\<close> loop of \<open>connect_to_mysql\<close>, from the value of \<open>attempt\<close> on. The
  message of the retry branch is an f-string that reads \<open>attempt\<close> and \<open>attemps\<close>: the
  lookup of the second name is part of the branch. \<open>time.sleep\<close> raises ValueError on a
  negative length.
\<close>

function connect_loop ::
  "env \<Rightarrow> config \<Rightarrow> int \<Rightarrow> int \<Rightarrow> int \<Rightarrow> (exn + connection option) \<times> event list" where
  "connect_loop e cfg attempts delay attempt =
     (if attempt < attempts + 1 then
        (case mysql_connect e cfg attempt of
           Inr cnx \<Rightarrow> (Inr (Some cnx), [Connect cfg])
         | Inl err \<Rightarrow>
             if \<not> caught err then (Inl err, [Connect cfg])
             else if attempt = attempts then (Inr None, [Connect cfg])
             else if \<not> resolves ''attemps'' then (Inl (NameError ''attemps''), [Connect cfg])
             else if delay ^ nat attempt < 0
               then (Inl (ValueError ''sleep length must be non-negative''), [Connect cfg])
             else (case connect_loop e cfg attempts delay (attempt + 1) of
                     (r, t) \<Rightarrow> (r, Connect cfg # Sleep (delay ^ nat attempt) # t)))
      else (Inr None, []))"
  by pat_completeness auto
termination
  by (relation "measure (\<lambda>(e, cfg, attempts, delay, attempt). nat (attempts + 1 - attempt))")
    auto

declare connect_loop.simps [simp del]

definition connect_to_mysql :: "int \<Rightarrow> int \<Rightarrow> env \<Rightarrow> (exn + connection option) \<times> event list" where
  "connect_to_mysql attempts delay e =
     (case get_secret e of
        (Inl err, t) \<Rightarrow> (Inl err, t)
      | (Inr secret, t) \<Rightarrow>
          (case connect_loop e (make_config secret) attempts delay 1 of
             (r, t') \<Rightarrow> (r, t @ t')))"

section \<open>DataFrame operations the program uses\<close>

definition nrows :: "dataframe \<Rightarrow> nat" where
  "nrows df = length (index df)"

text \<open>\<open>df[[l1, l2, ...]]\<close>: the named columns in the order asked; KeyError on a missing label.\<close>

fun select :: "(string \<times> cell list) list \<Rightarrow> string list \<Rightarrow> exn + (string \<times> cell list) list" where
  "select cs [] = Inr []"
| "select cs (l # ls) =
     (case map_of cs l of
        None \<Rightarrow> Inl (KeyError l)
      | Some v \<Rightarrow>
          (case select cs ls of
             Inl err \<Rightarrow> Inl err
           | Inr r \<Rightarrow> Inr ((l, v) # r)))"

definition getitem :: "string list \<Rightarrow> dataframe \<Rightarrow> exn + dataframe" where
  "getitem labels df =
     (case select (cols df) labels of
        Inl err \<Rightarrow> Inl err
      | Inr cs \<Rightarrow> Inr (df\<lparr>cols := cs\<rparr>))"

text \<open>\<open>df.columns = labels\<close>: ValueError unless there is one label per column.\<close>

definition set_columns :: "string list \<Rightarrow> dataframe \<Rightarrow> exn + dataframe" where
  "set_columns labels df =
     (if length labels \<noteq> length (cols df) then Inl (ValueError ''Length mismatch'')
      else Inr (df\<lparr>cols := zip labels (map snd (cols df))\<rparr>))"

text \<open>
  \<open>df[label] = values\<close>: replaces the column in place when the label exists, appends it
  otherwise. The program assigns the frame's own index and a scalar (one copy per row).
\<close>

definition setitem :: "string \<Rightarrow> cell list \<Rightarrow> dataframe \<Rightarrow> dataframe" where
  "setitem label values df = df\<lparr>cols := AList.update label values (cols df)\<rparr>"

text \<open>The labels of several frames, each once, in order of first appearance.\<close>

definition union_labels :: "dataframe list \<Rightarrow> string list" where
  "union_labels dfs = rev (remdups (rev (concat (map columns dfs))))"

definition column_or_nan :: "string \<Rightarrow> dataframe \<Rightarrow> cell list" where
  "column_or_nan l df =
     (case map_of (cols df) l of
        None \<Rightarrow> replicate (nrows df) NaN
      | Some v \<Rightarrow> v)"

text \<open>
  \<open>pd.concat(frames, ignore_index=True)\<close>: ValueError on an empty list; otherwise the rows
  of the frames one after the other under the union of their labels, renumbered from 0.
\<close>

definition pd_concat :: "dataframe list \<Rightarrow> exn + dataframe" where
  "pd_concat dfs =
     (if dfs = [] then Inl (ValueError ''No objects to concatenate'')
      else Inr \<lparr> index = map (\<lambda>i. Integer (int i)) [0..<sum_list (map nrows dfs)],
                 cols = map (\<lambda>l. (l, concat (map (column_or_nan l) dfs))) (union_labels dfs) \<rparr>)"

text \<open>Row \<open>i\<close> as a Series (label and value), and \<open>df.iterrows()\<close>.\<close>

definition row_at :: "dataframe \<Rightarrow> nat \<Rightarrow> (string \<times> cell) list" where
  "row_at df i = map (\<lambda>(l, vs). (l, vs ! i)) (cols df)"

definition iterrows :: "dataframe \<Rightarrow> (cell \<times> (string \<times> cell) list) list" where
  "iterrows df = map (\<lambda>i. (index df ! i, row_at df i)) [0..<nrows df]"

text \<open>
  \<open>df.to_csv(buffer, index=False)\<close>: a header line of the labels, then one line per row,
  fields separated by commas, lines ended by a newline. A string is written as it is, a
  missing value as the empty string, any other value as \<open>txt\<close> renders it. A field holding
  a comma, a double quote or a line break is quoted, its quotes doubled; a line whose only
  field is empty is written as two quotes.
\<close>

fun field_text :: "(cell \<Rightarrow> string) \<Rightarrow> cell \<Rightarrow> string" where
  "field_text txt (Str s) = s"
| "field_text txt NaN = []"
| "field_text txt c = txt c"

definition special :: "char \<Rightarrow> bool" where
  "special c = (c \<in> set [CHR '','', CHR 0x22, CHR 0x0A, CHR 0x0D])"

definition quote_field :: "string \<Rightarrow> string" where
  "quote_field f =
     (if list_ex special f
      then CHR 0x22 # concat (map (\<lambda>c. if c = CHR 0x22 then [c, c] else [c]) f) @ [CHR 0x22]
      else f)"

fun join :: "string \<Rightarrow> string list \<Rightarrow> string" where
  "join sep [] = []"
| "join sep [f] = f"
| "join sep (f # g # fs) = f @ sep @ join sep (g # fs)"

definition csv_line :: "string list \<Rightarrow> string" where
  "csv_line fs =
     (if fs = [[]] then [CHR 0x22, CHR 0x22] else join '','' (map quote_field fs))
     @ [CHR 0x0A]"

definition to_csv :: "(cell \<Rightarrow> string) \<Rightarrow> dataframe \<Rightarrow> string" where
  "to_csv txt df =
     concat (map csv_line
       (columns df # map (\<lambda>i. map (\<lambda>(l, v). field_text txt v) (row_at df i)) [0..<nrows df]))"

section \<open>\<open>get_market_value\<close>\<close>

definition tickers :: "string list" where
  "tickers = [''BTC-USD'', ''ETH-USD'', ''^GSPC'', ''^IXIC'', ''GC=F'']"

text \<open>
  Lines 160 to 172: what the loop body makes of the frame downloaded for \<open>moneda\<close>.
\<close>

definition data_moneda_frame :: "string \<Rightarrow> dataframe \<Rightarrow> exn + dataframe" where
  "data_moneda_frame moneda downloaded =
     (case getitem [''Adj Close'', ''Volume''] downloaded of
        Inl err \<Rightarrow> Inl err
      | Inr d1 \<Rightarrow>
          (case set_columns [''cotizacion'', ''volumen''] d1 of
             Inl err \<Rightarrow> Inl err
           | Inr d2 \<Rightarrow>
               (let d3 = setitem ''fecha'' (index d2) d2;
                    d4 = setitem ''moneda'' (replicate (nrows d3) (Str moneda)) d3
                in getitem [''fecha'', ''cotizacion'', ''volumen'', ''moneda''] d4)))"

text \<open>
  The \<open>for\<close> loop over the tickers; \<open>d\<close> is the dict \<open>dataframes_por_moneda\<close>, an
  association list since a Python dict keeps insertion order and an assignment to a key
  it holds keeps the key's place.
\<close>

fun download_all ::
  "env \<Rightarrow> string list \<Rightarrow> (string \<times> dataframe) list \<Rightarrow>
   (exn + (string \<times> dataframe) list) \<times> event list" where
  "download_all e [] d = (Inr d, [])"
| "download_all e (moneda # rest) d =
     (case yf_download e moneda of
        Inl err \<Rightarrow> (Inl err, [Download moneda])
      | Inr downloaded \<Rightarrow>
          (case data_moneda_frame moneda downloaded of
             Inl err \<Rightarrow> (Inl err, [Download moneda])
           | Inr data_moneda \<Rightarrow>
               (case download_all e rest (AList.update moneda data_moneda d) of
                  (r, t) \<Rightarrow> (r, Download moneda # t))))"

text \<open>The body of \<open>get_market_value\<close> with its local list \<open>tickers\<close> as a parameter.\<close>

definition get_market_value_of :: "string list \<Rightarrow> env \<Rightarrow> (exn + dataframe) \<times> event list" where
  "get_market_value_of ts e =
     (case download_all e ts [] of
        (Inl err, t) \<Rightarrow> (Inl err, t)
      | (Inr d, t) \<Rightarrow> (pd_concat (map snd d), t))"

definition get_market_value :: "env \<Rightarrow> (exn + dataframe) \<times> event list" where
  "get_market_value e = get_market_value_of tickers e"

section \<open>\<open>save_in_bucket\<close>\<close>

definition is_leap :: "nat \<Rightarrow> bool" where
  "is_leap y = (if y mod 400 = 0 then True else if y mod 100 = 0 then False else y mod 4 = 0)"

definition days_in_month :: "nat \<Rightarrow> nat \<Rightarrow> nat" where
  "days_in_month y m =
     (if m = 2 then (if is_leap y then 29 else 28)
      else if m = 4 \<or> m = 6 \<or> m = 9 \<or> m = 11 then 30 else 31)"

text \<open>
  \<open>t - timedelta(days=1)\<close>: the same time of day on the calendar day before;
  OverflowError before the first day of year 1.
\<close>

definition minus_one_day :: "datetime \<Rightarrow> exn + datetime" where
  "minus_one_day t =
     (if 1 < day t then Inr (t\<lparr>day := day t - 1\<rparr>)
      else if 1 < month t
        then Inr (t\<lparr>month := month t - 1, day := days_in_month (year t) (month t - 1)\<rparr>)
      else if 1 < year t then Inr (t\<lparr>year := year t - 1, month := 12, day := 31\<rparr>)
      else Inl (OverflowError ''date value out of range''))"

definition digit :: "nat \<Rightarrow> char" where
  "digit d = ''0123456789'' ! (d mod 10)"

text \<open>\<open>strftime('%Y-%m-%d')\<close>: four digits of the year, two of the month, two of the day.\<close>

definition strftime_ymd :: "datetime \<Rightarrow> string" where
  "strftime_ymd t =
     [digit (year t div 1000), digit (year t div 100), digit (year t div 10), digit (year t)]
     @ ''-'' @ [digit (month t div 10), digit (month t)]
     @ ''-'' @ [digit (day t div 10), digit (day t)]"

text \<open>
  A DataFrame is a mutable object passed by reference: \<open>save_in_bucket\<close> and
  \<open>insert_data\<close> return, after their result, the frame as it is when the call ends.
  \<open>put_object e bucket key body\<close> is what creating the S3 client and calling it raises.
\<close>

definition save_in_bucket :: "dataframe \<Rightarrow> env \<Rightarrow> (exn + unit) \<times> dataframe \<times> event list" where
  "save_in_bucket merged_data e =
     (case environ e ''BUCKET_DEST'' of
        None \<Rightarrow> (Inl (KeyError ''BUCKET_DEST''), merged_data, [])
      | Some bucket_name \<Rightarrow>
          (let body = to_csv (csv_text e) merged_data in
           case minus_one_day (now e) of
             Inl err \<Rightarrow> (Inl err, merged_data, [])
           | Inr yesterday \<Rightarrow>
               (let key = strftime_ymd yesterday @ ''.csv'' in
                case put_object e bucket_name key body of
                  Some err \<Rightarrow> (Inl err, merged_data, [PutObject bucket_name key body])
                | None \<Rightarrow> (Inr (), merged_data, [PutObject bucket_name key body]))))"

section \<open>\<open>insert_data\<close>\<close>

text \<open>
  \<open>pd.Timestamp.to_pydatetime\<close>: a datetime in microseconds; TypeError on anything that
  is not a Timestamp.
\<close>

fun to_pydatetime :: "cell \<Rightarrow> exn + param" where
  "to_pydatetime (Timestamp ns) = Inr (PyDatetime (ns div 1000))"
| "to_pydatetime c = Inl (TypeError ''to_pydatetime'')"

text \<open>The tuple \<open>data_moneda\<close> of one row; a missing label raises KeyError.\<close>

definition data_moneda_tuple :: "(string \<times> cell) list \<Rightarrow> exn + param list" where
  "data_moneda_tuple row =
     (case map_of row ''fecha'' of
        None \<Rightarrow> Inl (KeyError ''fecha'')
      | Some fecha \<Rightarrow>
          (case to_pydatetime fecha of
             Inl err \<Rightarrow> Inl err
           | Inr dt \<Rightarrow>
               (case map_of row ''moneda'' of
                  None \<Rightarrow> Inl (KeyError ''moneda'')
                | Some moneda \<Rightarrow>
                    (case map_of row ''cotizacion'' of
                       None \<Rightarrow> Inl (KeyError ''cotizacion'')
                     | Some cotizacion \<Rightarrow>
                         (case map_of row ''volumen'' of
                            None \<Rightarrow> Inl (KeyError ''volumen'')
                          | Some volumen \<Rightarrow>
                              Inr [dt, Value moneda, Value cotizacion, Value volumen])))))"

text \<open>The \<open>for\<close> loop of \<open>insert_data\<close>; \<open>n\<close> counts the calls of \<open>cursor.execute\<close> so far.\<close>

fun execute_rows ::
  "connection \<Rightarrow> string \<Rightarrow> nat \<Rightarrow> (cell \<times> (string \<times> cell) list) list \<Rightarrow>
   (exn + unit) \<times> event list" where
  "execute_rows cnx query n [] = (Inr (), [])"
| "execute_rows cnx query n ((idx, row) # rest) =
     (case data_moneda_tuple row of
        Inl err \<Rightarrow> (Inl err, [])
      | Inr data_moneda \<Rightarrow>
          (case execute_raises cnx n query data_moneda of
             Some err \<Rightarrow> (Inl err, [Execute query data_moneda])
           | None \<Rightarrow>
               (case execute_rows cnx query (Suc n) rest of
                  (r, t) \<Rightarrow> (r, Execute query data_moneda # t))))"

definition insert_query :: "string \<Rightarrow> string" where
  "insert_query table_name =
     ''INSERT INTO '' @ table_name
     @ '' (fecha, moneda, Cotizacion, volumen) VALUES (%s, %s, %s, %s)''"

definition insert_data ::
  "connection \<Rightarrow> dataframe \<Rightarrow> env \<Rightarrow> (exn + unit) \<times> dataframe \<times> event list" where
  "insert_data cnx merged_data e =
     (case environ e ''DB_TABLE_NAME'' of
        None \<Rightarrow> (Inl (KeyError ''DB_TABLE_NAME''), merged_data, [])
      | Some table_name \<Rightarrow>
          (case cursor_raises cnx of
             Some err \<Rightarrow> (Inl err, merged_data, [Cursor])
           | None \<Rightarrow>
               (case execute_rows cnx (insert_query table_name) 0 (iterrows merged_data) of
                  (Inl err, t) \<Rightarrow> (Inl err, merged_data, Cursor # t)
                | (Inr u, t) \<Rightarrow>
                    (case commit_raises cnx of
                       Some err \<Rightarrow> (Inl err, merged_data, Cursor # t @ [Commit])
                     | None \<Rightarrow>
                         (case cursor_close_raises cnx of
                            Some err \<Rightarrow>
                              (Inl err, merged_data, Cursor # t @ [Commit, CursorClose])
                          | None \<Rightarrow>
                              (Inr (), merged_data, Cursor # t @ [Commit, CursorClose]))))))"

section \<open>\<open>lambda_handler\<close>\<close>

record response =
  statusCode :: int
  body :: string

text \<open>
  The handler's result is the dictionary it returns, or \<open>None\<close> when control leaves the
  \<open>try\<close> block without reaching the \<open>return\<close>; \<open>except Exception as e: raise e\<close> hands
  every exception on unchanged. \<open>connect_to_mysql()\<close> is called with its defaults, 3 and 2.
\<close>

definition lambda_handler ::
  "'ev \<Rightarrow> 'ctx \<Rightarrow> env \<Rightarrow> (exn + response option) \<times> event list" where
  "lambda_handler event context e =
     (case get_market_value e of
        (Inl err, t1) \<Rightarrow> (Inl err, t1)
      | (Inr data, t1) \<Rightarrow>
          (case save_in_bucket data e of
             (Inl err, data1, t2) \<Rightarrow> (Inl err, t1 @ t2)
           | (Inr u, data1, t2) \<Rightarrow>
               (case connect_to_mysql 3 2 e of
                  (Inl err, t3) \<Rightarrow> (Inl err, t1 @ t2 @ t3)
                | (Inr None, t3) \<Rightarrow> (Inr None, t1 @ t2 @ t3)
                | (Inr (Some cnx), t3) \<Rightarrow>
                    (case insert_data cnx data1 e of
                       (Inl err, data2, t4) \<Rightarrow> (Inl err, t1 @ t2 @ t3 @ t4)
                     | (Inr u', data2, t4) \<Rightarrow>
                         (case close_raises cnx of
                            Some err \<Rightarrow> (Inl err, t1 @ t2 @ t3 @ t4 @ [ConnectionClose])
                          | None \<Rightarrow>
                              (Inr (Some \<lparr> statusCode = 200,
                                 body = CHR 0x22 # ''Data scrapped successfully!'' @ [CHR 0x22] \<rparr>),
                               t1 @ t2 @ t3 @ t4 @ [ConnectionClose]))))))"

section \<open>Sample environments\<close>

text \<open>The frame a download returns for one day: one bar, six columns, indexed by its date.\<close>

definition one_bar :: "int \<Rightarrow> int \<Rightarrow> int \<Rightarrow> dataframe" where
  "one_bar t p v =
     \<lparr> index = [Timestamp t],
       cols = [(''Open'', [Float p]), (''High'', [Float p]), (''Low'', [Float p]),
               (''Close'', [Float p]), (''Adj Close'', [Float p]), (''Volume'', [Integer v])] \<rparr>"


fun sample_text :: "cell \<Rightarrow> string" where
  "sample_text (Timestamp t) = ''2024-02-29''"
| "sample_text (Float p) = ''1.5''"
| "sample_text (Integer v) = ''7''"
| "sample_text c = []"

definition good_connection :: connection where
  "good_connection =
     \<lparr> cursor_raises = None, execute_raises = (\<lambda>n q ps. None), commit_raises = None,
       cursor_close_raises = None, close_raises = None \<rparr>"

definition env_ok :: env where
  "env_ok =
     \<lparr> environ = map_of [(''DB_TABLE_NAME'', ''cotizaciones''), (''BUCKET_DEST'', ''bucket''),
                         (''SECRET_NAME'', ''db''), (''REGION_NAME'', ''us-east-1'')],
       now = \<lparr> year = 2024, month = 3, day = 1, hour = 0, minute = 30, second = 0,
               microsecond = 0 \<rparr>,
       yf_download = (\<lambda>moneda. Inr (one_bar 1709164800000000000 3 7)),
       csv_text = sample_text,
       put_object = (\<lambda>bucket key body. None),
       secret_value = (\<lambda>region name. Inr (map_of [(''username'', ''u''), (''host'', ''h'')])),
       mysql_connect = (\<lambda>cfg attempt. Inr good_connection) \<rparr>"

text \<open>The database refuses every connection.\<close>

definition env_db_down :: env where
  "env_db_down = env_ok\<lparr>mysql_connect := (\<lambda>cfg attempt. Inl (MySQLError ''refused''))\<rparr>"

text \<open>The database refuses the first two connections and accepts the third.\<close>

definition env_third_time :: env where
  "env_third_time =
     env_ok\<lparr>mysql_connect :=
       (\<lambda>cfg attempt. if attempt < 3 then Inl (MySQLError ''refused'') else Inr good_connection)\<rparr>"

text \<open>The secret of the sample environments, and the configuration read from it.\<close>

definition sample_config :: config where
  "sample_config = make_config (map_of [(''username'', ''u''), (''host'', ''h'')])"






text \<open>The frame of a run in which every ticker has its bar, and the file archived for it.\<close>

definition sample_frame :: dataframe where
  "sample_frame =
     \<lparr> index = [Integer 0, Integer 1, Integer 2, Integer 3, Integer 4],
       cols = [(''fecha'', replicate 5 (Timestamp 1709164800000000000)),
               (''cotizacion'', replicate 5 (Float 3)),
               (''volumen'', replicate 5 (Integer 7)),
               (''moneda'', [Str ''BTC-USD'', Str ''ETH-USD'', Str ''^GSPC'', Str ''^IXIC'',
                             Str ''GC=F''])] \<rparr>"

definition sample_csv :: string where
  "sample_csv =
     ''fecha,cotizacion,volumen,moneda'' @ [CHR 0x0A]
     @ ''2024-02-29,1.5,7,BTC-USD'' @ [CHR 0x0A]
     @ ''2024-02-29,1.5,7,ETH-USD'' @ [CHR 0x0A]
     @ ''2024-02-29,1.5,7,^GSPC'' @ [CHR 0x0A]
     @ ''2024-02-29,1.5,7,^IXIC'' @ [CHR 0x0A]
     @ ''2024-02-29,1.5,7,GC=F'' @ [CHR 0x0A]"

text \<open>The provider is unreachable; S3 refuses the object; the second insert fails.\<close>

definition env_no_provider :: env where
  "env_no_provider = env_ok\<lparr>yf_download := (\<lambda>moneda. Inl (OtherError ''provider''))\<rparr>"

definition env_no_bucket :: env where
  "env_no_bucket = env_ok\<lparr>put_object := (\<lambda>bucket key content. Some (OtherError ''s3''))\<rparr>"

definition env_insert_fails :: env where
  "env_insert_fails =
     env_ok\<lparr>mysql_connect :=
       (\<lambda>cfg attempt. Inr (good_connection\<lparr>execute_raises :=
          (\<lambda>n q ps. if n = 1 then Some (MySQLError ''row'') else None)\<rparr>))\<rparr>"

section \<open>The calendar\<close>

text \<open>
  Dates of the proleptic Gregorian calendar and their ordinal, the count of days from
  0001-01-01 (Python's \<open>date.toordinal\<close>): what ``the calendar day before'' is measured by.
\<close>

definition valid_date :: "datetime \<Rightarrow> bool" where
  "valid_date t =
     (1 \<le> year t \<and> 1 \<le> month t \<and> month t \<le> 12 \<and> 1 \<le> day t \<and>
      day t \<le> days_in_month (year t) (month t))"

definition days_before_year :: "nat \<Rightarrow> nat" where
  "days_before_year y = 365 * (y - 1) + (y - 1) div 4 - (y - 1) div 100 + (y - 1) div 400"

definition days_before_month :: "nat \<Rightarrow> nat \<Rightarrow> nat" where
  "days_before_month y m = sum_list (map (days_in_month y) [1..<m])"

definition toordinal :: "datetime \<Rightarrow> nat" where
  "toordinal t = days_before_year (year t) + days_before_month (year t) (month t) + day t"

section \<open>Reading the archive back\<close>

text \<open>
  Modelled from the spec: the program only writes the archive, and the spec speaks of
  parsing it back as delimited text. \<open>read_csv\<close> is a reader of comma-separated text
  with newline-ended lines and double-quoted fields in which a quote is doubled. It scans
  the text once; \<open>fld\<close> is the field read so far and \<open>row\<close> the fields of the line read
  so far.
\<close>

datatype mode = Plain | InQuotes | QuoteSeen

fun parse_csv :: "mode \<Rightarrow> string \<Rightarrow> string list \<Rightarrow> string \<Rightarrow> string list list" where
  "parse_csv m fld row [] = (if m = Plain \<and> fld = [] \<and> row = [] then [] else [row @ [fld]])"
| "parse_csv Plain fld row (c # s) =
     (if c = CHR '','' then parse_csv Plain [] (row @ [fld]) s
      else if c = CHR 0x0A then (row @ [fld]) # parse_csv Plain [] [] s
      else if c = CHR 0x22 \<and> fld = [] then parse_csv InQuotes [] row s
      else parse_csv Plain (fld @ [c]) row s)"
| "parse_csv InQuotes fld row (c # s) =
     (if c = CHR 0x22 then parse_csv QuoteSeen fld row s
      else parse_csv InQuotes (fld @ [c]) row s)"
| "parse_csv QuoteSeen fld row (c # s) =
     (if c = CHR 0x22 then parse_csv InQuotes (fld @ [c]) row s
      else if c = CHR '','' then parse_csv Plain [] (row @ [fld]) s
      else if c = CHR 0x0A then (row @ [fld]) # parse_csv Plain [] [] s
      else parse_csv Plain (fld @ [c]) row s)"

definition read_csv :: "string \<Rightarrow> string list list" where
  "read_csv s = parse_csv Plain [] [] s"

section \<open>Shape of the frames\<close>

text \<open>
  A frame as the loop body leaves it for the ticker \<open>k\<close>: the four labels in the body's
  order, the ticker on every row, the index as the date column.
\<close>

definition labelled :: "string \<Rightarrow> dataframe \<Rightarrow> bool" where
  "labelled k f \<longleftrightarrow>
     columns f = [''fecha'', ''cotizacion'', ''volumen'', ''moneda''] \<and>
     map_of (cols f) ''moneda'' = Some (replicate (nrows f) (Str k)) \<and>
     map_of (cols f) ''fecha'' = Some (index f)"

section \<open>The retry loop\<close>

lemma attemps_unresolved: "\<not> resolves ''attemps''"
  by (simp add: resolves_def connect_to_mysql_locals_def module_globals_def)

text \<open>
  What one pass of the loop does, the lookup of \<open>attemps\<close> evaluated: the loop never
  reaches its \<open>time.sleep\<close>, so it never makes a second attempt.
\<close>

lemma connect_loop_once:
  "connect_loop e cfg attempts delay attempt =
     (if attempt < attempts + 1 then
        (case mysql_connect e cfg attempt of
           Inr cnx \<Rightarrow> (Inr (Some cnx), [Connect cfg])
         | Inl err \<Rightarrow>
             if \<not> caught err then (Inl err, [Connect cfg])
             else if attempt = attempts then (Inr None, [Connect cfg])
             else (Inl (NameError ''attemps''), [Connect cfg]))
      else (Inr None, []))"
  by (subst connect_loop.simps) (simp add: attemps_unresolved split: sum.splits)

lemma connect_loop_never_sleeps:
  "Sleep d \<notin> set (snd (connect_loop e cfg attempts delay attempt))"
  by (simp add: connect_loop_once split: sum.splits)

lemma connect_to_mysql_never_sleeps: "Sleep d \<notin> set (snd (connect_to_mysql attempts delay e))"
proof (cases "get_secret e")
  case (Pair r t)
  have t: "Sleep d \<notin> set t"
    using Pair by (auto simp: get_secret_def split: option.splits)
  show ?thesis
  proof (cases r)
    case (Inl err)
    with Pair t show ?thesis by (simp add: connect_to_mysql_def)
  next
    case (Inr secret)
    obtain r' t' where l: "connect_loop e (make_config secret) attempts delay 1 = (r', t')"
      by (cases "connect_loop e (make_config secret) attempts delay 1")
    from connect_loop_never_sleeps[of d e "make_config secret" attempts delay 1] l
    have "Sleep d \<notin> set t'" by simp
    with Pair Inr t l show ?thesis by (simp add: connect_to_mysql_def)
  qed
qed

text \<open>
  C2 (violated by the code). With the defaults \<open>attempts = 3\<close>, \<open>delay = 2\<close> and a database
  that refuses twice and then accepts, the claim has \<open>connect_to_mysql\<close> return the
  connection after sleeps of 2 and 4. The code raises NameError while it builds the
  message of the first failed attempt: one call of \<open>connect\<close>, no sleep, no connection.
\<close>

theorem connect_third_time_raises:
  "connect_to_mysql 3 2 env_third_time =
     (Inl (NameError ''attemps''), [GetSecretValue ''us-east-1'' ''db'', Connect sample_config])"
  by (simp add: connect_to_mysql_def connect_loop_once get_secret_def env_third_time_def
      env_ok_def sample_config_def)

section \<open>The fetcher\<close>

lemma data_moneda_frame_eq:
  "data_moneda_frame k dl =
     (case map_of (cols dl) ''Adj Close'' of
        None \<Rightarrow> Inl (KeyError ''Adj Close'')
      | Some a \<Rightarrow>
          (case map_of (cols dl) ''Volume'' of
             None \<Rightarrow> Inl (KeyError ''Volume'')
           | Some v \<Rightarrow>
               Inr (dl\<lparr>cols := [(''fecha'', index dl), (''cotizacion'', a), (''volumen'', v),
                                (''moneda'', replicate (nrows dl) (Str k))]\<rparr>)))"
  by (simp add: data_moneda_frame_def getitem_def set_columns_def setitem_def nrows_def Let_def
      split: option.splits)

lemma data_moneda_frame_labelled:
  assumes "data_moneda_frame k dl = Inr f"
  shows "labelled k f" and "nrows f = nrows dl"
  using assms
  by (auto simp: data_moneda_frame_eq labelled_def columns_def nrows_def split: option.splits)

lemma set_update_subset: "set (AList.update k v al) \<subseteq> insert (k, v) (set al)"
  by (induction al) auto




lemma download_all_entries:
  assumes "download_all e ts d = (Inr d', t)"
    and "\<forall>(k, f) \<in> set d. Q k f"
    and "\<And>k dl f. k \<in> set ts \<Longrightarrow> yf_download e k = Inr dl \<Longrightarrow> data_moneda_frame k dl = Inr f \<Longrightarrow> Q k f"
  shows "\<forall>(k, f) \<in> set d'. Q k f"
  using assms
proof (induction ts arbitrary: d t)
  case Nil
  then show ?case by simp
next
  case (Cons k ts)
  from Cons.prems(1) obtain dl f t' where
    dl: "yf_download e k = Inr dl" and f: "data_moneda_frame k dl = Inr f"
    and rest: "download_all e ts (AList.update k f d) = (Inr d', t')"
    by (auto split: sum.splits prod.splits)
  have "Q k f" using Cons.prems(3)[OF _ dl f] by simp
  with Cons.prems(2) have "\<forall>(k, f) \<in> set (AList.update k f d). Q k f"
    using set_update_subset[of k f d] by auto
  from Cons.IH[OF rest this] Cons.prems(3) show ?case by simp
qed

lemma map_of_tabulate:
  "map_of (map (\<lambda>l. (l, g l)) ls) k = (if k \<in> set ls then Some (g k) else None)"
  by (induction ls) auto

lemma remdups_absorb: "set ys \<subseteq> set zs \<Longrightarrow> remdups (ys @ zs) = remdups zs"
  by (induction ys) auto

lemma union_labels_same:
  assumes "fs \<noteq> []" and "\<forall>f \<in> set fs. columns f = ls" and "distinct ls"
  shows "union_labels fs = ls"
proof -
  from assms(1) obtain f fs' where fs: "fs = f # fs'" by (cases fs) auto
  with assms(2) have c: "concat (map columns fs) = ls @ concat (map columns fs')"
    and s: "set (concat (map columns fs')) \<subseteq> set ls"
    by auto
  have "remdups (rev (concat (map columns fs') ) @ rev ls) = remdups (rev ls)"
    by (rule remdups_absorb) (use s in simp)
  also have "\<dots> = rev ls" using assms(3) by (simp add: distinct_remdups_id)
  finally show ?thesis by (simp add: union_labels_def c)
qed

lemma pd_concat_labelled:
  assumes "pd_concat fs = Inr df"
    and "\<forall>f \<in> set fs. columns f = ls" and "distinct ls"
  shows "columns df = ls"
    and "nrows df = sum_list (map nrows fs)"
    and "k \<in> set ls \<Longrightarrow> map_of (cols df) k = Some (concat (map (column_or_nan k) fs))"
proof -
  from assms(1) have ne: "fs \<noteq> []" by (auto simp: pd_concat_def split: if_splits)
  have u: "union_labels fs = ls" by (rule union_labels_same[OF ne assms(2,3)])
  from assms(1) ne have df:
    "df = \<lparr> index = map (\<lambda>i. Integer (int i)) [0..<sum_list (map nrows fs)],
            cols = map (\<lambda>l. (l, concat (map (column_or_nan l) fs))) ls \<rparr>"
    by (simp add: pd_concat_def u)
  show "columns df = ls" by (simp add: df columns_def comp_def)
  show "nrows df = sum_list (map nrows fs)" by (simp add: df nrows_def)
  show "k \<in> set ls \<Longrightarrow> map_of (cols df) k = Some (concat (map (column_or_nan k) fs))"
    by (simp add: df map_of_tabulate)
qed









lemma fetch_env_ok: "get_market_value env_ok = (Inr sample_frame, map Download tickers)"
  by code_simp



section \<open>The archive\<close>

lemma archive_env_ok:
  "save_in_bucket sample_frame env_ok =
     (Inr (), sample_frame, [PutObject ''bucket'' ''2024-02-29.csv'' sample_csv])"
  by code_simp

text \<open>
  C5. Whatever frame is archived, every object \<open>save_in_bucket\<close> writes has the key
  \<open>strftime('%Y-%m-%d')\<close> of the day before \<open>datetime.now()\<close>, followed by \<open>.csv\<close>: the
  key is a function of the clock alone.
\<close>

theorem archive_key:
  assumes "PutObject bucket key content \<in> set (snd (snd (save_in_bucket df e)))"
  shows "\<exists>y. minus_one_day (now e) = Inr y \<and> key = strftime_ymd y @ ''.csv''"
  using assms
  by (auto simp: save_in_bucket_def Let_def split: option.splits sum.splits)

theorem archive_key_witness:
  "PutObject ''bucket'' ''2024-02-29.csv'' sample_csv
     \<in> set (snd (snd (save_in_bucket sample_frame env_ok))) \<and>
   (\<exists>y. minus_one_day (now env_ok) = Inr y \<and> ''2024-02-29.csv'' = strftime_ymd y @ ''.csv'')"
proof -
  have h: "PutObject ''bucket'' ''2024-02-29.csv'' sample_csv
      \<in> set (snd (snd (save_in_bucket sample_frame env_ok)))"
    by (simp add: archive_env_ok)
  from archive_key[OF h] h show ?thesis by simp
qed

text \<open>
  \<open>minus_one_day\<close> is the calendar day before: it keeps a date valid and lowers its
  ordinal by one.
\<close>

lemma days_before_month_Suc:
  "1 \<le> m \<Longrightarrow> days_before_month y (Suc m) = days_before_month y m + days_in_month y m"
  by (simp add: days_before_month_def)

lemma div_Suc_if: "0 < k \<Longrightarrow> Suc n div k = n div k + (if Suc n mod k = 0 then 1 else 0)"
  by (simp add: div_Suc mod_Suc)

lemma days_before_month_1: "days_before_month y (Suc 0) = 0"
  by (simp add: days_before_month_def)

lemma days_before_month_12:
  "days_before_month y 12 = (if is_leap y then 335 else 334)"
proof -
  have "[1..<12] = [1,2,3,4,5,6,7,8,9,10,11::nat]"
    by (simp add: upt_rec)
  then show ?thesis by (simp add: days_before_month_def days_in_month_def)
qed

lemma days_before_year_Suc:
  assumes "1 \<le> y"
  shows "days_before_year (Suc y) = days_before_year y + (if is_leap y then 366 else 365)"
proof -
  from assms obtain n where y: "y = Suc n" by (cases y) auto
  define a b c where "a = n div 4" and "b = n div 100" and "c = n div 400"
  define i4 i100 i400 :: nat where "i4 = (if Suc n mod 4 = 0 then 1 else 0)"
    and "i100 = (if Suc n mod 100 = 0 then 1 else 0)"
    and "i400 = (if Suc n mod 400 = 0 then 1 else 0)"
  have le: "b \<le> a" unfolding a_def b_def by (rule div_le_mono2) simp_all
  have le': "b + i100 \<le> a + i4"
  proof -
    have "Suc n div 100 \<le> Suc n div 4" by (rule div_le_mono2) simp_all
    then show ?thesis by (simp add: div_Suc_if a_def b_def i4_def i100_def)
  qed
  have A: "days_before_year y = 365 * n + a - b + c"
    by (simp add: y days_before_year_def a_def b_def c_def)
  have B: "days_before_year (Suc y) = 365 * Suc n + (a + i4) - (b + i100) + (c + i400)"
    by (simp add: y days_before_year_def div_Suc_if a_def b_def c_def i4_def i100_def i400_def)
  have L: "(if is_leap y then 366 else 365) + i100 = 365 + i4 + (i400::nat)"
  proof -
    have "Suc n mod 400 = 0 \<Longrightarrow> Suc n mod 100 = 0" by presburger
    moreover have "Suc n mod 100 = 0 \<Longrightarrow> Suc n mod 4 = 0" by presburger
    ultimately show ?thesis by (auto simp: y is_leap_def i4_def i100_def i400_def)
  qed
  from le le' L show ?thesis unfolding A B by (cases "is_leap y") auto
qed

lemma days_in_month_pos: "0 < days_in_month y m"
  by (simp add: days_in_month_def)

lemma minus_one_day_ordinal:
  assumes v: "valid_date t" and m: "minus_one_day t = Inr y"
  shows "valid_date y \<and> toordinal y + 1 = toordinal t"
proof (cases "1 < day t")
  case True
  with m have y: "y = t\<lparr>day := day t - 1\<rparr>" by (simp add: minus_one_day_def)
  with v True show ?thesis by (auto simp add: valid_date_def toordinal_def)
next
  case d: False
  with v have d1: "day t = 1" by (simp add: valid_date_def)
  show ?thesis
  proof (cases "1 < month t")
    case True
    then obtain k where k: "month t = Suc k" "1 \<le> k" by (cases "month t") auto
    from m d True k have y: "y = t\<lparr>month := k, day := days_in_month (year t) k\<rparr>"
      by (simp add: minus_one_day_def)
    from v k have "valid_date y"
      by (simp add: y valid_date_def days_in_month_pos Suc_le_eq)
    moreover have "toordinal y + 1 = toordinal t"
      using k d1 by (simp add: y toordinal_def days_before_month_Suc)
    ultimately show ?thesis ..
  next
    case mo: False
    with v have m1: "month t = 1" by (simp add: valid_date_def)
    from m d mo have yr: "1 < year t" by (simp add: minus_one_day_def split: if_splits)
    then obtain k where k: "year t = Suc k" "1 \<le> k" by (cases "year t") auto
    from m d mo yr k have y: "y = t\<lparr>year := k, month := 12, day := 31\<rparr>"
      by (simp add: minus_one_day_def)
    have "valid_date y" using k by (simp add: y valid_date_def days_in_month_def)
    moreover have "toordinal y + 1 = toordinal t"
      using k d1 m1 days_before_year_Suc[of k]
      by (simp add: y toordinal_def days_before_month_12 days_before_month_1)
    ultimately show ?thesis ..
  qed
qed

text \<open>
  C9. \<open>save_in_bucket\<close> and \<open>insert_data\<close> leave the frame they are given as it was,
  whatever they return or raise.
\<close>

theorem frame_unmodified:
  "fst (snd (save_in_bucket df e)) = df \<and> fst (snd (insert_data cnx df e)) = df"
  by (simp add: save_in_bucket_def insert_data_def Let_def
      split: option.splits sum.splits prod.splits)

section \<open>The insert\<close>

lemma map_of_row_at:
  "map_of (row_at df i) l = map_option (\<lambda>vs. vs ! i) (map_of (cols df) l)"
  by (simp add: row_at_def map_of_map)

lemma execute_rows_map:
  assumes "\<forall>n q ps. execute_raises cnx n q ps = None"
    and "\<forall>i \<in> set js. data_moneda_tuple (snd (h i)) = Inr (p i)"
  shows "execute_rows cnx q n (map h js) = (Inr (), map (\<lambda>i. Execute q (p i)) js)"
  using assms(2)
proof (induction js arbitrary: n)
  case Nil
  then show ?case by simp
next
  case (Cons j js)
  obtain idx row where h: "h j = (idx, row)" by (cases "h j")
  with Cons.prems have "data_moneda_tuple row = Inr (p j)" by simp
  moreover from Cons
  have "execute_rows cnx q (Suc n) (map h js) = (Inr (), map (\<lambda>i. Execute q (p i)) js)"
    by simp
  ultimately show ?case using h assms(1) by simp
qed

text \<open>
  C7. For a connection none of whose operations raises, a configured table name and a
  frame with the four columns whose dates are Timestamps (one per row), \<open>insert_data\<close>
  opens a cursor, executes the insert statement once per row, in row order, with the
  values bound in the order date, symbol, price, volume, then commits once and closes the
  cursor; it performs nothing else.
\<close>

theorem insert_data_events:
  assumes "environ e ''DB_TABLE_NAME'' = Some table_name"
    and "map_of (cols df) ''fecha'' = Some (map Timestamp ts)"
    and "length ts = nrows df"
    and "map_of (cols df) ''moneda'' = Some ms"
    and "map_of (cols df) ''cotizacion'' = Some cs"
    and "map_of (cols df) ''volumen'' = Some vs"
    and "cursor_raises cnx = None"
    and "\<forall>n q ps. execute_raises cnx n q ps = None"
    and "commit_raises cnx = None"
    and "cursor_close_raises cnx = None"
  shows "insert_data cnx df e =
     (Inr (), df,
      Cursor #
      map (\<lambda>i. Execute (insert_query table_name)
                 [PyDatetime (ts ! i div 1000), Value (ms ! i), Value (cs ! i), Value (vs ! i)])
          [0..<nrows df]
      @ [Commit, CursorClose])"
proof -
  let ?p = "\<lambda>i. [PyDatetime (ts ! i div 1000), Value (ms ! i), Value (cs ! i), Value (vs ! i)]"
  let ?h = "\<lambda>i. (index df ! i, row_at df i)"
  have "\<forall>i \<in> set [0..<nrows df]. data_moneda_tuple (snd (?h i)) = Inr (?p i)"
    using assms(2-6) by (simp add: data_moneda_tuple_def map_of_row_at)
  from execute_rows_map[OF assms(8) this]
  have "execute_rows cnx (insert_query table_name) 0 (iterrows df) =
          (Inr (), map (\<lambda>i. Execute (insert_query table_name) (?p i)) [0..<nrows df])"
    by (simp add: iterrows_def)
  with assms(1,7,9,10) show ?thesis by (simp add: insert_data_def)
qed

theorem insert_data_events_witness:
  "insert_data good_connection sample_frame env_ok =
     (Inr (), sample_frame,
      [Cursor,
       Execute (insert_query ''cotizaciones'')
         [PyDatetime 1709164800000000, Value (Str ''BTC-USD''), Value (Float 3), Value (Integer 7)],
       Execute (insert_query ''cotizaciones'')
         [PyDatetime 1709164800000000, Value (Str ''ETH-USD''), Value (Float 3), Value (Integer 7)],
       Execute (insert_query ''cotizaciones'')
         [PyDatetime 1709164800000000, Value (Str ''^GSPC''), Value (Float 3), Value (Integer 7)],
       Execute (insert_query ''cotizaciones'')
         [PyDatetime 1709164800000000, Value (Str ''^IXIC''), Value (Float 3), Value (Integer 7)],
       Execute (insert_query ''cotizaciones'')
         [PyDatetime 1709164800000000, Value (Str ''GC=F''), Value (Float 3), Value (Integer 7)],
       Commit, CursorClose])"
proof -
  have n: "nrows sample_frame = 5" by (simp add: nrows_def sample_frame_def)
  have u: "[0..<5] = [0, 1, 2, 3, 4 :: nat]" by (simp add: upt_rec)
  have "insert_data good_connection sample_frame env_ok =
     (Inr (), sample_frame,
      Cursor #
      map (\<lambda>i. Execute (insert_query ''cotizaciones'')
                 [PyDatetime (replicate 5 1709164800000000000 ! i div 1000),
                  Value ([Str ''BTC-USD'', Str ''ETH-USD'', Str ''^GSPC'', Str ''^IXIC'',
                          Str ''GC=F''] ! i),
                  Value (replicate 5 (Float 3) ! i), Value (replicate 5 (Integer 7) ! i)])
          [0..<nrows sample_frame]
      @ [Commit, CursorClose])"
    by (rule insert_data_events)
      (simp_all add: env_ok_def sample_frame_def good_connection_def nrows_def)
  then show ?thesis by (simp add: n u)
qed

section \<open>The handler\<close>

lemma connect_default_never_None: "fst (connect_to_mysql 3 2 e) \<noteq> Inr None"
  by (auto simp: connect_to_mysql_def get_secret_def connect_loop_once
      split: option.splits sum.splits prod.splits)

text \<open>
  C1 (violated by the code). Fetch and archive succeed and the database refuses every
  connection: the claim has \<open>lambda_handler\<close> return status 200. The code raises the
  NameError of the retry loop, after the archive is written. (No run reaches the branch
  of the handler for a missing connection: \<open>connect_to_mysql()\<close> never returns \<open>None\<close>.)
\<close>

theorem handler_db_down_raises:
  "lambda_handler () () env_db_down =
     (Inl (NameError ''attemps''),
      map Download tickers
      @ [PutObject ''bucket'' ''2024-02-29.csv'' sample_csv,
         GetSecretValue ''us-east-1'' ''db'', Connect sample_config])"
  by code_simp

text \<open>
  C4. An exception raised by the fetch, by the archive, by the connection step, by the
  insert or by closing the connection is the result of \<open>lambda_handler\<close>, and the run
  performs nothing after the step that raised; and a response the handler returns has
  status code 200.
\<close>

theorem lambda_handler_propagates:
  "(\<forall>err t1. get_market_value e = (Inl err, t1) \<longrightarrow>
      lambda_handler event context e = (Inl err, t1)) \<and>
   (\<forall>data t1 err data1 t2.
      get_market_value e = (Inr data, t1) \<and> save_in_bucket data e = (Inl err, data1, t2) \<longrightarrow>
      lambda_handler event context e = (Inl err, t1 @ t2)) \<and>
   (\<forall>data t1 u data1 t2 err t3.
      get_market_value e = (Inr data, t1) \<and> save_in_bucket data e = (Inr u, data1, t2) \<and>
      connect_to_mysql 3 2 e = (Inl err, t3) \<longrightarrow>
      lambda_handler event context e = (Inl err, t1 @ t2 @ t3)) \<and>
   (\<forall>data t1 u data1 t2 cnx t3 err data2 t4.
      get_market_value e = (Inr data, t1) \<and> save_in_bucket data e = (Inr u, data1, t2) \<and>
      connect_to_mysql 3 2 e = (Inr (Some cnx), t3) \<and>
      insert_data cnx data1 e = (Inl err, data2, t4) \<longrightarrow>
      lambda_handler event context e = (Inl err, t1 @ t2 @ t3 @ t4)) \<and>
   (\<forall>data t1 u data1 t2 cnx t3 u' data2 t4 err.
      get_market_value e = (Inr data, t1) \<and> save_in_bucket data e = (Inr u, data1, t2) \<and>
      connect_to_mysql 3 2 e = (Inr (Some cnx), t3) \<and>
      insert_data cnx data1 e = (Inr u', data2, t4) \<and> close_raises cnx = Some err \<longrightarrow>
      lambda_handler event context e = (Inl err, t1 @ t2 @ t3 @ t4 @ [ConnectionClose])) \<and>
   (\<forall>r. fst (lambda_handler event context e) = Inr (Some r) \<longrightarrow> statusCode r = 200)"
  by (auto simp: lambda_handler_def split: prod.splits sum.splits option.splits)

theorem lambda_handler_propagates_witness:
  "lambda_handler () () env_no_provider = (Inl (OtherError ''provider''), [Download ''BTC-USD'']) \<and>
   lambda_handler () () env_no_bucket =
     (Inl (OtherError ''s3''),
      map Download tickers @ [PutObject ''bucket'' ''2024-02-29.csv'' sample_csv]) \<and>
   fst (lambda_handler () () env_insert_fails) = Inl (MySQLError ''row'') \<and>
   (\<exists>r. fst (lambda_handler () () env_ok) = Inr (Some r) \<and> statusCode r = 200)"
proof -
  have f1: "get_market_value env_no_provider = (Inl (OtherError ''provider''), [Download ''BTC-USD''])"
    by code_simp
  have c1: "lambda_handler () () env_no_provider =
      (Inl (OtherError ''provider''), [Download ''BTC-USD''])"
    by (rule lambda_handler_propagates[THEN conjunct1, rule_format, OF f1])
  have f2: "get_market_value env_no_bucket = (Inr sample_frame, map Download tickers)"
    by code_simp
  have a2: "save_in_bucket sample_frame env_no_bucket =
      (Inl (OtherError ''s3''), sample_frame, [PutObject ''bucket'' ''2024-02-29.csv'' sample_csv])"
    by code_simp
  have c2: "lambda_handler () () env_no_bucket =
      (Inl (OtherError ''s3''),
       map Download tickers @ [PutObject ''bucket'' ''2024-02-29.csv'' sample_csv])"
    by (rule lambda_handler_propagates[THEN conjunct2, THEN conjunct1, rule_format,
          OF conjI[OF f2 a2]])
  have f3: "get_market_value env_insert_fails = (Inr sample_frame, map Download tickers)"
    by code_simp
  have a3: "save_in_bucket sample_frame env_insert_fails =
      (Inr (), sample_frame, [PutObject ''bucket'' ''2024-02-29.csv'' sample_csv])"
    by code_simp
  obtain cnx t3 where k3: "connect_to_mysql 3 2 env_insert_fails = (Inr (Some cnx), t3)"
    and x3: "execute_raises cnx = (\<lambda>n q ps. if n = 1 then Some (MySQLError ''row'') else None)"
    and y3: "cursor_raises cnx = None"
    by (simp add: connect_to_mysql_def connect_loop_once get_secret_def env_insert_fails_def
        env_ok_def good_connection_def)
  obtain data2 t4 where i3: "insert_data cnx sample_frame env_insert_fails =
      (Inl (MySQLError ''row''), data2, t4)"
    by (simp add: insert_data_def x3 y3 env_insert_fails_def env_ok_def iterrows_def nrows_def
        sample_frame_def upt_rec row_at_def data_moneda_tuple_def)
  have c3: "fst (lambda_handler () () env_insert_fails) = Inl (MySQLError ''row'')"
    using lambda_handler_propagates[THEN conjunct2, THEN conjunct2, THEN conjunct2,
        THEN conjunct1, rule_format, OF conjI[OF f3 conjI[OF a3 conjI[OF k3 i3]]], of "()" "()"]
    by simp
  define r where
    "r = \<lparr> statusCode = 200, body = CHR 0x22 # ''Data scrapped successfully!'' @ [CHR 0x22] \<rparr>"
  have r: "fst (lambda_handler () () env_ok) = Inr (Some r)"
    unfolding r_def by code_simp
  have "statusCode r = 200"
    by (rule lambda_handler_propagates[THEN conjunct2, THEN conjunct2, THEN conjunct2,
          THEN conjunct2, THEN conjunct2, rule_format, OF r])
  with r have "\<exists>r. fst (lambda_handler () () env_ok) = Inr (Some r) \<and> statusCode r = 200"
    by (intro exI conjI)
  with c1 c2 c3 show ?thesis by (intro conjI)
qed

section \<open>Field order\<close>

lemma get_market_value_of_columns:
  assumes "get_market_value_of ts e = (Inr df, t)"
  shows "columns df = [''fecha'', ''cotizacion'', ''volumen'', ''moneda'']"
proof -
  from assms obtain d where d: "download_all e ts [] = (Inr d, t)"
    and c: "pd_concat (map snd d) = Inr df"
    by (auto simp: get_market_value_of_def split: prod.splits sum.splits)
  have "\<forall>(k, f) \<in> set d. labelled k f"
    by (rule download_all_entries[OF d]) (simp_all add: data_moneda_frame_labelled)
  then have "\<forall>f \<in> set (map snd d). columns f = [''fecha'', ''cotizacion'', ''volumen'', ''moneda'']"
    by (auto simp: labelled_def)
  from pd_concat_labelled(1)[OF c this] show ?thesis by simp
qed

lemma four_columns:
  assumes "map fst xs = [a, b, c, d]"
  shows "\<exists>p q r s. xs = [(a, p), (b, q), (c, r), (d, s)]"
  using assms by (auto simp: map_eq_Cons_conv)

lemma header_line:
  "csv_line [''fecha'', ''cotizacion'', ''volumen'', ''moneda''] =
     ''fecha,cotizacion,volumen,moneda'' @ [CHR 0x0A]"
  by (simp add: csv_line_def quote_field_def special_def)

text \<open>
  C3 (as amended). In every run whose fetch succeeds the frame has the columns \<open>fecha\<close>,
  \<open>cotizacion\<close>, \<open>volumen\<close>, \<open>moneda\<close> in this order, so the archived file has the header
  \<open>fecha,cotizacion,volumen,moneda\<close> and on every line the date, the price, the volume
  and the symbol of one record, in this order; the values bound to the insert statement
  for a row are its date, symbol, price and volume, in this order.
\<close>

theorem field_order:
  assumes "get_market_value e = (Inr df, t)"
  shows "\<exists>f c v m.
     cols df = [(''fecha'', f), (''cotizacion'', c), (''volumen'', v), (''moneda'', m)] \<and>
     to_csv txt df =
       ''fecha,cotizacion,volumen,moneda'' @ [CHR 0x0A]
       @ concat (map (\<lambda>i. csv_line [field_text txt (f ! i), field_text txt (c ! i),
                                     field_text txt (v ! i), field_text txt (m ! i)])
                  [0..<nrows df]) \<and>
     (\<forall>i ps. data_moneda_tuple (row_at df i) = Inr ps \<longrightarrow>
        (\<exists>ns. f ! i = Timestamp ns \<and>
           ps = [PyDatetime (ns div 1000), Value (m ! i), Value (c ! i), Value (v ! i)]))"
proof -
  from assms have "columns df = [''fecha'', ''cotizacion'', ''volumen'', ''moneda'']"
    unfolding get_market_value_def by (rule get_market_value_of_columns)
  then have "map fst (cols df) = [''fecha'', ''cotizacion'', ''volumen'', ''moneda'']"
    by (simp add: columns_def)
  from four_columns[OF this] obtain f c v m where
    cs: "cols df = [(''fecha'', f), (''cotizacion'', c), (''volumen'', v), (''moneda'', m)]"
    by blast
  have csv: "to_csv txt df =
       ''fecha,cotizacion,volumen,moneda'' @ [CHR 0x0A]
       @ concat (map (\<lambda>i. csv_line [field_text txt (f ! i), field_text txt (c ! i),
                                     field_text txt (v ! i), field_text txt (m ! i)])
                  [0..<nrows df])"
    by (simp add: to_csv_def columns_def row_at_def cs header_line comp_def del: append.simps)
  have tup: "\<forall>i ps. data_moneda_tuple (row_at df i) = Inr ps \<longrightarrow>
        (\<exists>ns. f ! i = Timestamp ns \<and>
           ps = [PyDatetime (ns div 1000), Value (m ! i), Value (c ! i), Value (v ! i)])"
  proof (intro allI impI)
    fix i ps assume a: "data_moneda_tuple (row_at df i) = Inr ps"
    show "\<exists>ns. f ! i = Timestamp ns \<and>
           ps = [PyDatetime (ns div 1000), Value (m ! i), Value (c ! i), Value (v ! i)]"
      using a by (cases "f ! i") (auto simp: data_moneda_tuple_def map_of_row_at cs)
  qed
  from cs csv tup show ?thesis by blast
qed

theorem field_order_witness:
  "get_market_value env_ok = (Inr sample_frame, map Download tickers) \<and>
   (\<exists>f c v m.
     cols sample_frame = [(''fecha'', f), (''cotizacion'', c), (''volumen'', v), (''moneda'', m)] \<and>
     to_csv sample_text sample_frame =
       ''fecha,cotizacion,volumen,moneda'' @ [CHR 0x0A]
       @ concat (map (\<lambda>i. csv_line [field_text sample_text (f ! i), field_text sample_text (c ! i),
                                     field_text sample_text (v ! i), field_text sample_text (m ! i)])
                  [0..<nrows sample_frame]))"
  using field_order[OF fetch_env_ok, of sample_text] fetch_env_ok by blast

text \<open>
  C3 (as stated) fails for the archive: in the run of \<open>env_ok\<close> the file written to the
  bucket begins with \<open>fecha,cotizacion,volumen,moneda\<close> (date, price, volume, symbol),
  not with \<open>fecha,moneda,cotizacion,volumen\<close> (date, symbol, price, volume).
\<close>

theorem field_order_counterexample:
  "PutObject ''bucket'' ''2024-02-29.csv'' sample_csv \<in> set (snd (lambda_handler () () env_ok)) \<and>
   take 31 sample_csv = ''fecha,cotizacion,volumen,moneda'' \<and>
   take 31 sample_csv \<noteq> ''fecha,moneda,cotizacion,volumen''"
  by code_simp

section \<open>Round trip of the archive\<close>

lemma parse_plain_run:
  "\<not> list_ex special f \<Longrightarrow> parse_csv Plain fld row (f @ s) = parse_csv Plain (fld @ f) row s"
  by (induction f arbitrary: fld) (auto simp: special_def)

lemma parse_quoted_run:
  "parse_csv InQuotes fld row
     (concat (map (\<lambda>c. if c = CHR 0x22 then [c, c] else [c]) f) @ CHR 0x22 # s) =
   parse_csv QuoteSeen (fld @ f) row s"
  by (induction f arbitrary: fld) auto

lemma parse_field_comma:
  "parse_csv Plain [] row (quote_field f @ CHR '','' # s) = parse_csv Plain [] (row @ [f]) s"
proof (cases "list_ex special f")
  case True
  then show ?thesis using parse_quoted_run[of "[]" row f "CHR '','' # s"]
    by (simp add: quote_field_def)
next
  case False
  then show ?thesis using parse_plain_run[of f "[]" row "CHR '','' # s"]
    by (simp add: quote_field_def)
qed

lemma parse_field_newline:
  "parse_csv Plain [] row (quote_field f @ CHR 0x0A # s) = (row @ [f]) # parse_csv Plain [] [] s"
proof (cases "list_ex special f")
  case True
  then show ?thesis using parse_quoted_run[of "[]" row f "CHR 0x0A # s"]
    by (simp add: quote_field_def)
next
  case False
  then show ?thesis using parse_plain_run[of f "[]" row "CHR 0x0A # s"]
    by (simp add: quote_field_def)
qed

lemma parse_joined:
  "fs \<noteq> [] \<Longrightarrow>
   parse_csv Plain [] row (join '','' (map quote_field fs) @ CHR 0x0A # s) =
     (row @ fs) # parse_csv Plain [] [] s"
proof (induction fs arbitrary: row)
  case Nil
  then show ?case by simp
next
  case (Cons f fs)
  show ?case
  proof (cases fs)
    case Nil
    then show ?thesis by (simp add: parse_field_newline)
  next
    case (Cons g gs)
    with Cons.IH[of "row @ [f]"] show ?thesis by (simp add: parse_field_comma)
  qed
qed

lemma parse_csv_line:
  assumes "fs \<noteq> []"
  shows "parse_csv Plain [] [] (csv_line fs @ s) = fs # parse_csv Plain [] [] s"
proof (cases "fs = [[]]")
  case True
  then show ?thesis by (simp add: csv_line_def)
next
  case False
  with parse_joined[OF assms, of "[]" s] show ?thesis by (simp add: csv_line_def)
qed

lemma read_csv_lines:
  "\<forall>fs \<in> set rows. fs \<noteq> [] \<Longrightarrow> read_csv (concat (map csv_line rows)) = rows"
  unfolding read_csv_def
  by (induction rows) (simp_all add: parse_csv_line)

text \<open>
  C8. What \<open>save_in_bucket\<close> writes for a frame with at least one column reads back as
  the frame's labels followed by its rows, in order, each value as the text it was
  written as: the text \<open>csv_text\<close> gives a date or a number, a string itself, the empty
  text for a missing value.
\<close>

theorem archive_round_trip:
  assumes "PutObject bucket key content \<in> set (snd (snd (save_in_bucket df e)))"
    and "cols df \<noteq> []"
  shows "read_csv content =
     columns df #
     map (\<lambda>i. map (\<lambda>(l, v). field_text (csv_text e) v) (row_at df i)) [0..<nrows df]"
proof -
  from assms(1) have "content = to_csv (csv_text e) df"
    by (auto simp: save_in_bucket_def Let_def split: option.splits sum.splits)
  moreover have "read_csv (to_csv (csv_text e) df) =
     columns df #
     map (\<lambda>i. map (\<lambda>(l, v). field_text (csv_text e) v) (row_at df i)) [0..<nrows df]"
    unfolding to_csv_def
    by (rule read_csv_lines) (use assms(2) in \<open>auto simp: columns_def row_at_def\<close>)
  ultimately show ?thesis by simp
qed

theorem archive_round_trip_witness:
  "read_csv sample_csv =
     [[''fecha'', ''cotizacion'', ''volumen'', ''moneda''],
      [''2024-02-29'', ''1.5'', ''7'', ''BTC-USD''],
      [''2024-02-29'', ''1.5'', ''7'', ''ETH-USD''],
      [''2024-02-29'', ''1.5'', ''7'', ''^GSPC''],
      [''2024-02-29'', ''1.5'', ''7'', ''^IXIC''],
      [''2024-02-29'', ''1.5'', ''7'', ''GC=F'']]"
proof -
  have h: "PutObject ''bucket'' ''2024-02-29.csv'' sample_csv
      \<in> set (snd (snd (save_in_bucket sample_frame env_ok)))"
    by (simp add: archive_env_ok)
  have c: "cols sample_frame \<noteq> []" by (simp add: sample_frame_def)
  have u: "[0..<5] = [0, 1, 2, 3, 4 :: nat]" by (simp add: upt_rec)
  have t: "csv_text env_ok = sample_text" by (simp add: env_ok_def)
  from archive_round_trip[OF h c] show ?thesis
    by (simp add: t columns_def row_at_def nrows_def sample_frame_def u)
qed

end
